theory Spec2Isabelle
  imports Complex_Main "HOL-Library.Word" "HOL-Library.Sublist"
begin

section \<open>The OMPT runtime visualizer: \<^verbatim>\<open>runtime_visualizer_utils.h\<close> and \<^verbatim>\<open>visualizer_tool.c\<close>\<close>

text \<open>
  The tool consists of an annotation header (activation latch, timestamp, \<^verbatim>\<open>ompt_annotate\<close>)
  and five OMPT callbacks with an initializer. Everything the C code does beyond returning
  is a change of the \<open>world\<close> below: the two globals of the header, the process environment
  read by \<^verbatim>\<open>getenv\<close>, the readings of \<^verbatim>\<open>CLOCK_MONOTONIC\<close>, the worker identity that
  \<^verbatim>\<open>omp_get_thread_num\<close> reports (a C \<^verbatim>\<open>int\<close>, read as signed), the host's callback table, and the bytes written to
  standard output. Two counters record how often the environment and the clock were asked.
\<close>

subsection \<open>Host declarations\<close>

text \<open>
  \<^verbatim>\<open>omp-tools.h\<close> belongs to the OpenMP runtime and is not part of the repository. The
  enumerators the tool compares against are therefore parameters of the model; enum values
  are the 32-bit integers the host passes.
\<close>

record omp_tools_h =
  ompt_scope_begin :: "32 word"
  ompt_work_loop :: "32 word"
  ompt_work_sections :: "32 word"
  ompt_work_single_executor :: "32 word"
  ompt_work_single_other :: "32 word"
  ompt_work_workshare :: "32 word"
  ompt_work_distribute :: "32 word"
  ompt_work_taskloop :: "32 word"
  ompt_sync_region_barrier :: "32 word"
  ompt_sync_region_barrier_implicit :: "32 word"
  ompt_sync_region_barrier_explicit :: "32 word"
  ompt_sync_region_barrier_implementation :: "32 word"
  ompt_sync_region_taskwait :: "32 word"
  ompt_sync_region_taskgroup :: "32 word"
  ompt_sync_region_reduction :: "32 word"
  ompt_callback_parallel_begin :: "32 word"
  ompt_callback_parallel_end :: "32 word"
  ompt_callback_work :: "32 word"
  ompt_callback_implicit_task :: "32 word"
  ompt_callback_sync_region :: "32 word"

text \<open>The five handlers, as the function pointers handed to \<^verbatim>\<open>ompt_set_callback\<close>.\<close>

datatype callback =
    On_parallel_begin
  | On_parallel_end
  | On_work
  | On_implicit_task
  | On_sync_region

subsection \<open>The world\<close>

record timespec =
  tv_sec :: "64 word"
  tv_nsec :: "64 word"

record world =
  ompt_loaded :: bool
  first_call :: bool
  environ :: "string \<rightharpoonup> string"
  getenv_calls :: nat
  clock :: "nat \<Rightarrow> timespec"
  clock_calls :: nat
  thread_num :: "32 word"
  callbacks :: "32 word \<rightharpoonup> callback"
  stdout :: string

text \<open>
  The state of a fresh process: \<^verbatim>\<open>bool ompt_loaded = false; static bool first_call = true;\<close>,
  nothing written, nothing asked yet.
\<close>

definition initial_world :: "(string \<rightharpoonup> string) \<Rightarrow> (nat \<Rightarrow> timespec) \<Rightarrow> 32 word \<Rightarrow> world" where
  "initial_world e c t =
     \<lparr>ompt_loaded = False, first_call = True, environ = e, getenv_calls = 0,
      clock = c, clock_calls = 0, thread_num = t, callbacks = Map.empty, stdout = []\<rparr>"

subsection \<open>The C library: \<^verbatim>\<open>getenv\<close>, \<^verbatim>\<open>clock_gettime\<close>, \<^verbatim>\<open>printf\<close>\<close>

definition getenv :: "string \<Rightarrow> world \<Rightarrow> string option \<times> world" where
  "getenv name w = (environ w name, w\<lparr>getenv_calls := Suc (getenv_calls w)\<rparr>)"

definition clock_gettime :: "world \<Rightarrow> timespec \<times> world" where
  "clock_gettime w = (clock w (clock_calls w), w\<lparr>clock_calls := Suc (clock_calls w)\<rparr>)"

definition omp_get_thread_num :: "world \<Rightarrow> 32 word" where
  "omp_get_thread_num w = thread_num w"

definition newline :: char where
  "newline = CHR 0x0A"

definition digit :: "nat \<Rightarrow> char" where
  "digit d = ''0123456789'' ! d"

fun dec :: "nat \<Rightarrow> string" where
  "dec n = (if n < 10 then [digit n] else dec (n div 10) @ [digit (n mod 10)])"

declare dec.simps [simp del]

text \<open>The conversions \<^verbatim>\<open>%d\<close>, \<^verbatim>\<open>%u\<close> and \<^verbatim>\<open>%lu\<close>.\<close>

definition fmt_d :: "32 word \<Rightarrow> string" where
  "fmt_d i = (if sint i < 0 then ''-'' @ dec (nat (- sint i)) else dec (nat (sint i)))"

definition fmt_u :: "32 word \<Rightarrow> string" where
  "fmt_u u = dec (unat u)"

definition fmt_lu :: "64 word \<Rightarrow> string" where
  "fmt_lu u = dec (unat u)"

text \<open>
  A \<^verbatim>\<open>double\<close> is an IEEE 754 binary64 number, kept as significand and exponent: \<open>Double m e\<close>
  stands for \<open>m * 2 ^ e\<close>. Every operation computes the exact result in integers and rounds
  it to 53 significant bits, to nearest with ties to even, as the hardware does. The
  exponent range is not modelled: with 64-bit \<^verbatim>\<open>tv_sec\<close> and \<^verbatim>\<open>tv_nsec\<close> the values of the
  tool stay far inside it, and neither infinities nor subnormal numbers arise.
\<close>

datatype double = Double (significand: int) (exponent: int)

definition double_value :: "double \<Rightarrow> rat" where
  "double_value x =
     of_int (significand x) *
     (if 0 \<le> exponent x then 2 ^ nat (exponent x) else 1 / 2 ^ nat (- exponent x))"

text \<open>The number of binary digits of a natural number.\<close>

fun bitlen :: "nat \<Rightarrow> nat" where
  "bitlen n = (if n = 0 then 0 else Suc (bitlen (n div 2)))"

declare bitlen.simps [simp del]

text \<open>The integer nearest to \<open>n / d\<close> for positive \<open>d\<close>, ties to even.\<close>

definition rdiv_even :: "int \<Rightarrow> int \<Rightarrow> int" where
  "rdiv_even n d =
     (let q = n div d; r = n mod d
      in if 2 * r < d then q else if d < 2 * r then q + 1 else if even q then q else q + 1)"

text \<open>
  The double nearest to \<open>n / d\<close> for positive \<open>d\<close>. With \<open>k\<close> the difference of the bit
  lengths, \<open>n / d\<close> lies between \<open>2 ^ (k - 1)\<close> and \<open>2 ^ (k + 1)\<close>; \<open>l\<close> is its binary
  exponent and the significand is the quotient scaled into 53 bits and rounded.
\<close>

definition round_quotient :: "int \<Rightarrow> int \<Rightarrow> double" where
  "round_quotient n d =
     (if n = 0 then Double 0 0
      else
        let k = int (bitlen (nat \<bar>n\<bar>)) - int (bitlen (nat d));
            l = (if (if 0 \<le> k then d * 2 ^ nat k \<le> \<bar>n\<bar> else d \<le> \<bar>n\<bar> * 2 ^ nat (- k))
                 then k else k - 1);
            e = l - 52
        in if 0 \<le> e then Double (rdiv_even n (d * 2 ^ nat e)) e
           else Double (rdiv_even (n * 2 ^ nat (- e)) d) e)"

text \<open>The double nearest to \<open>n / d * 2 ^ e\<close>.\<close>

definition round_scaled :: "int \<Rightarrow> int \<Rightarrow> int \<Rightarrow> double" where
  "round_scaled n d e =
     (if 0 \<le> e then round_quotient (n * 2 ^ nat e) d else round_quotient n (d * 2 ^ nat (- e)))"

text \<open>
  The conversion of a 64-bit signed integer (\<^verbatim>\<open>time_t\<close>, \<^verbatim>\<open>long\<close>), the product with and
  the quotient by a double constant that is a positive integer (\<^verbatim>\<open>1000000.0\<close>, \<^verbatim>\<open>1000.0\<close>),
  and the sum of two doubles.
\<close>

definition double_of_int64 :: "64 word \<Rightarrow> double" where
  "double_of_int64 i = round_quotient (sint i) 1"

definition dmul_by :: "double \<Rightarrow> int \<Rightarrow> double" where
  "dmul_by x c = round_scaled (significand x * c) 1 (exponent x)"

definition ddiv_by :: "double \<Rightarrow> int \<Rightarrow> double" where
  "ddiv_by x c = round_scaled (significand x) c (exponent x)"

definition dadd :: "double \<Rightarrow> double \<Rightarrow> double" where
  "dadd x y =
     (let e = min (exponent x) (exponent y)
      in round_scaled
           (significand x * 2 ^ nat (exponent x - e) + significand y * 2 ^ nat (exponent y - e))
           1 e)"

text \<open>
  \<^verbatim>\<open>%.3f\<close> prints the exact value of the double rounded to thousandths (ties to even):
  a minus sign for a negative number, the integer part, a point and exactly three
  decimals.
\<close>

definition thousandths :: "double \<Rightarrow> nat" where
  "thousandths x =
     nat (if 0 \<le> exponent x then \<bar>significand x\<bar> * 2 ^ nat (exponent x) * 1000
          else rdiv_even (\<bar>significand x\<bar> * 1000) (2 ^ nat (- exponent x)))"

definition fmt_3f :: "double \<Rightarrow> string" where
  "fmt_3f x =
     (let n = thousandths x
      in (if significand x < 0 then ''-'' else '''') @ dec (n div 1000) @ ''.'' @
         [digit (n div 100 mod 10), digit (n div 10 mod 10), digit (n mod 10)])"

definition printf :: "string \<Rightarrow> world \<Rightarrow> world" where
  "printf s w = w\<lparr>stdout := stdout w @ s\<rparr>"

subsection \<open>\<^verbatim>\<open>runtime_visualizer_utils.h\<close>\<close>

definition check_ompt_loaded :: "world \<Rightarrow> world" where
  "check_ompt_loaded w =
     (let (ompt_tool_libraries, w1) = getenv ''OMP_TOOL_LIBRARIES'' w
      in if ompt_tool_libraries \<noteq> None then w1\<lparr>ompt_loaded := True\<rparr>
         else w1\<lparr>ompt_loaded := False\<rparr>)"

definition get_timestamp :: "world \<Rightarrow> double \<times> world" where
  "get_timestamp w =
     (let (ts, w1) = clock_gettime w
      in (dadd (dmul_by (double_of_int64 (tv_sec ts)) 1000000)
               (ddiv_by (double_of_int64 (tv_nsec ts)) 1000), w1))"

definition ompt_annotate :: "string \<Rightarrow> world \<Rightarrow> world" where
  "ompt_annotate annotation w =
     (let w1 = (if first_call w then (check_ompt_loaded w)\<lparr>first_call := False\<rparr> else w)
      in if \<not> ompt_loaded w1 then w1
         else
           let (timestamp, w2) = get_timestamp w1;
               thread_id = omp_get_thread_num w2
           in printf (''[OMPT_annotation] Thread '' @ fmt_d thread_id @ '' Annotation at '' @
                      fmt_3f (ddiv_by timestamp 1000) @ '' ms: '' @ annotation @ [newline]) w2)"

definition ompt_mark_roi_start :: "world \<Rightarrow> world" where
  "ompt_mark_roi_start w = ompt_annotate ''ROI_START'' w"

definition ompt_mark_roi_end :: "world \<Rightarrow> world" where
  "ompt_mark_roi_end w = ompt_annotate ''ROI_END'' w"

subsection \<open>\<^verbatim>\<open>visualizer_tool.c\<close>: the callbacks\<close>

text \<open>
  The pointer arguments (task data, frames, return addresses) and \<^verbatim>\<open>flags\<close> are never read
  by the handlers and are left out.
\<close>

definition on_ompt_callback_parallel_begin :: "32 word \<Rightarrow> world \<Rightarrow> world" where
  "on_ompt_callback_parallel_begin requested_parallelism w =
     (let (timestamp, w1) = get_timestamp w;
          thread_id = omp_get_thread_num w1
      in printf (''[OMPT] Thread '' @ fmt_d thread_id @ '' PARALLEL BEGIN at '' @
                 fmt_3f (ddiv_by timestamp 1000) @ '' ms (requested threads: '' @
                 fmt_u requested_parallelism @ '')'' @ [newline]) w1)"

definition on_ompt_callback_parallel_end :: "world \<Rightarrow> world" where
  "on_ompt_callback_parallel_end w =
     (let (timestamp, w1) = get_timestamp w;
          thread_id = omp_get_thread_num w1
      in printf (''[OMPT] Thread '' @ fmt_d thread_id @ '' PARALLEL END at '' @
                 fmt_3f (ddiv_by timestamp 1000) @ '' ms'' @ [newline]) w1)"

definition work_type_str :: "omp_tools_h \<Rightarrow> 32 word \<Rightarrow> string" where
  "work_type_str H work_type =
     (if work_type = ompt_work_loop H then ''loop''
      else if work_type = ompt_work_sections H then ''sections''
      else if work_type = ompt_work_single_executor H then ''single''
      else if work_type = ompt_work_single_other H then ''single_other''
      else if work_type = ompt_work_workshare H then ''workshare''
      else if work_type = ompt_work_distribute H then ''distribute''
      else if work_type = ompt_work_taskloop H then ''taskloop''
      else ''unknown'')"

definition work_event_type :: "omp_tools_h \<Rightarrow> 32 word \<Rightarrow> string" where
  "work_event_type H endpoint = (if endpoint = ompt_scope_begin H then ''START'' else ''END'')"

definition on_ompt_callback_work ::
  "omp_tools_h \<Rightarrow> 32 word \<Rightarrow> 32 word \<Rightarrow> 64 word \<Rightarrow> world \<Rightarrow> world" where
  "on_ompt_callback_work H work_type endpoint count w =
     (let (timestamp, w1) = get_timestamp w;
          thread_id = omp_get_thread_num w1
      in printf (''[OMPT] Thread '' @ fmt_d thread_id @ '' WORK '' @ work_event_type H endpoint @
                 '' at '' @ fmt_3f (ddiv_by timestamp 1000) @ '' ms (type: '' @
                 work_type_str H work_type @ '', count: '' @ fmt_lu count @ '')'' @
                 [newline]) w1)"

definition task_event_type :: "omp_tools_h \<Rightarrow> 32 word \<Rightarrow> string" where
  "task_event_type H endpoint =
     (if endpoint = ompt_scope_begin H then ''TASK START'' else ''TASK FINISH'')"

definition on_ompt_callback_implicit_task ::
  "omp_tools_h \<Rightarrow> 32 word \<Rightarrow> 32 word \<Rightarrow> world \<Rightarrow> world" where
  "on_ompt_callback_implicit_task H endpoint team_size w =
     (let (timestamp, w1) = get_timestamp w;
          thread_id = omp_get_thread_num w1
      in printf (''[OMPT] Thread '' @ fmt_d thread_id @ '' '' @ task_event_type H endpoint @
                 '' at '' @ fmt_3f (ddiv_by timestamp 1000) @ '' ms (team size: '' @
                 fmt_u team_size @ '')'' @ [newline]) w1)"

definition sync_type_str :: "omp_tools_h \<Rightarrow> 32 word \<Rightarrow> string" where
  "sync_type_str H kind =
     (if kind = ompt_sync_region_barrier H then ''barrier''
      else if kind = ompt_sync_region_barrier_implicit H then ''implicit_barrier''
      else if kind = ompt_sync_region_barrier_explicit H then ''explicit_barrier''
      else if kind = ompt_sync_region_barrier_implementation H then ''implementation_barrier''
      else if kind = ompt_sync_region_taskwait H then ''taskwait''
      else if kind = ompt_sync_region_taskgroup H then ''taskgroup''
      else if kind = ompt_sync_region_reduction H then ''reduction''
      else ''unknown'')"

definition sync_event_type :: "omp_tools_h \<Rightarrow> 32 word \<Rightarrow> string" where
  "sync_event_type H endpoint = (if endpoint = ompt_scope_begin H then ''ENTER'' else ''EXIT'')"

definition on_ompt_callback_sync_region ::
  "omp_tools_h \<Rightarrow> 32 word \<Rightarrow> 32 word \<Rightarrow> world \<Rightarrow> world" where
  "on_ompt_callback_sync_region H kind endpoint w =
     (let (timestamp, w1) = get_timestamp w;
          thread_id = omp_get_thread_num w1
      in printf (''[OMPT] Thread '' @ fmt_d thread_id @ '' '' @ sync_event_type H endpoint @
                 '' '' @ sync_type_str H kind @ '' at '' @ fmt_3f (ddiv_by timestamp 1000) @
                 '' ms'' @ [newline]) w1)"

subsection \<open>\<^verbatim>\<open>visualizer_tool.c\<close>: attaching to the host\<close>

text \<open>
  \<^verbatim>\<open>lookup\<close> is the host's symbol lookup; a null result is \<open>None\<close>. The registration
  function it may return is host code acting on the world; its result code is ignored by
  the tool.
\<close>

type_synonym ompt_set_callback_t = "32 word \<Rightarrow> callback \<Rightarrow> world \<Rightarrow> world"

definition initializer ::
  "omp_tools_h \<Rightarrow> (string \<Rightarrow> ompt_set_callback_t option) \<Rightarrow> world \<Rightarrow> int \<times> world" where
  "initializer H lookup w =
     (let w0 = printf (''OMPT Tool Initialized'' @ [newline]) w
      in case lookup ''ompt_set_callback'' of
           Some ompt_set_callback \<Rightarrow>
             (let w1 = ompt_set_callback (ompt_callback_parallel_begin H) On_parallel_begin w0;
                  w2 = ompt_set_callback (ompt_callback_parallel_end H) On_parallel_end w1;
                  w3 = ompt_set_callback (ompt_callback_work H) On_work w2;
                  w4 = ompt_set_callback (ompt_callback_implicit_task H) On_implicit_task w3;
                  w5 = ompt_set_callback (ompt_callback_sync_region H) On_sync_region w4
              in (1, printf (''OMPT callbacks registered successfully'' @ [newline]) w5))
         | None \<Rightarrow>
             (1, printf (''Warning: Could not register OMPT callbacks'' @ [newline]) w0))"

definition finalizer :: "world \<Rightarrow> world" where
  "finalizer w = printf (''OMPT Tool Finalized'' @ [newline]) w"

subsection \<open>Runs of the instrumented process\<close>





subsection \<open>Vocabulary of the properties\<close>

text \<open>
  The activation state as the next call of \<^verbatim>\<open>ompt_annotate\<close> will see it: the presence of the
  variable while the latch is still open, the stored flag afterwards.
\<close>

definition activation_enabled :: "world \<Rightarrow> bool" where
  "activation_enabled w =
     (if first_call w then environ w ''OMP_TOOL_LIBRARIES'' \<noteq> None else ompt_loaded w)"

text \<open>The bytes an operation appended to standard output.\<close>

definition emitted :: "world \<Rightarrow> world \<Rightarrow> string" where
  "emitted w w' = drop (length (stdout w)) (stdout w')"

text \<open>A text that is exactly one line: one newline, and that one at its end.\<close>

definition one_line :: "string \<Rightarrow> bool" where
  "one_line s = (s \<noteq> [] \<and> last s = newline \<and> count_list s newline = 1)"

text \<open>
  A decimal number with a fractional component of three digits, as \<^verbatim>\<open>%.3f\<close> prints it:
  an optional minus sign, at least one digit, a point, three digits.
\<close>

definition is_digit :: "char \<Rightarrow> bool" where
  "is_digit c = (c \<in> set ''0123456789'')"

definition decimal_with_fraction :: "string \<Rightarrow> bool" where
  "decimal_with_fraction s =
     (let b = (if s \<noteq> [] \<and> hd s = CHR ''-'' then tl s else s);
          ip = takeWhile is_digit b;
          fp = drop (length ip) b
      in ip \<noteq> [] \<and> length fp = 4 \<and> hd fp = CHR ''.'' \<and> list_all is_digit (tl fp))"

text \<open>
  The layout shared by all six records: prefix, worker, event, the microsecond timestamp
  divided by 1000, and whatever follows the unit.
\<close>

definition record_line :: "string \<Rightarrow> 32 word \<Rightarrow> string \<Rightarrow> double \<Rightarrow> string \<Rightarrow> string" where
  "record_line pre tid event us rest =
     ''['' @ pre @ ''] Thread '' @ fmt_d tid @ '' '' @ event @ '' at '' @
     fmt_3f (ddiv_by us 1000) @ '' ms'' @ rest @ [newline]"

text \<open>The reading of the clock that the next timestamp query returns, in microseconds.\<close>

definition next_timestamp :: "world \<Rightarrow> double" where
  "next_timestamp w = fst (get_timestamp w)"

text \<open>
  A sample assignment of the host's enumerators (the values of OpenMP 5.0's
  \<^verbatim>\<open>omp-tools.h\<close>), a sample clock and two sample environments, for concrete runs.
\<close>

definition omp_tools_5_0 :: omp_tools_h where
  "omp_tools_5_0 =
     \<lparr>ompt_scope_begin = 1,
      ompt_work_loop = 1, ompt_work_sections = 2, ompt_work_single_executor = 3,
      ompt_work_single_other = 4, ompt_work_workshare = 5, ompt_work_distribute = 6,
      ompt_work_taskloop = 7,
      ompt_sync_region_barrier = 1, ompt_sync_region_barrier_implicit = 2,
      ompt_sync_region_barrier_explicit = 3, ompt_sync_region_barrier_implementation = 4,
      ompt_sync_region_taskwait = 5, ompt_sync_region_taskgroup = 6,
      ompt_sync_region_reduction = 7,
      ompt_callback_parallel_begin = 3, ompt_callback_parallel_end = 4,
      ompt_callback_work = 20, ompt_callback_implicit_task = 7,
      ompt_callback_sync_region = 23\<rparr>"

definition sample_clock :: "nat \<Rightarrow> timespec" where
  "sample_clock n = \<lparr>tv_sec = 1 + of_nat n, tv_nsec = 500000\<rparr>"

definition env_with_tool :: "string \<rightharpoonup> string" where
  "env_with_tool = [''OMP_TOOL_LIBRARIES'' \<mapsto> ''./libvisualizer.so'']"

definition env_without_tool :: "string \<rightharpoonup> string" where
  "env_without_tool = [''HOME'' \<mapsto> ''/root'']"

definition world_with_tool :: world where
  "world_with_tool = initial_world env_with_tool sample_clock 2"

definition world_without_tool :: world where
  "world_without_tool = initial_world env_without_tool sample_clock 2"

text \<open>A host whose registration function stores the handler in its callback table.\<close>

definition host_set_callback :: ompt_set_callback_t where
  "host_set_callback event cb w = w\<lparr>callbacks := (callbacks w)(event \<mapsto> cb)\<rparr>"

definition host_lookup :: "string \<Rightarrow> ompt_set_callback_t option" where
  "host_lookup name = (if name = ''ompt_set_callback'' then Some host_set_callback else None)"

definition host_lookup_unavailable :: "string \<Rightarrow> ompt_set_callback_t option" where
  "host_lookup_unavailable name = None"

section \<open>Properties\<close>

subsection \<open>What the conversions print\<close>

lemma digit_in_digits: "d < 10 \<Longrightarrow> digit d \<in> set ''0123456789''"
  unfolding digit_def by (rule nth_mem) simp

lemma dec_digits: "set (dec n) \<subseteq> set ''0123456789''"
proof (induction n rule: dec.induct)
  case (1 n)
  show ?case
  proof (cases "n < 10")
    case True
    then show ?thesis using digit_in_digits [of n] by (subst dec.simps) simp
  next
    case False
    have "digit (n mod 10) \<in> set ''0123456789''" by (rule digit_in_digits) simp
    with False 1 show ?thesis by (subst dec.simps) simp
  qed
qed

lemma dec_nonempty: "dec n \<noteq> []"
  by (subst dec.simps) simp

lemma newline_notin_dec: "newline \<notin> set (dec n)"
  using dec_digits [of n] by (auto simp: newline_def)

lemma newline_notin_fmt_d: "newline \<notin> set (fmt_d i)"
  using newline_notin_dec by (simp add: fmt_d_def newline_def)

lemma newline_notin_fmt_u: "newline \<notin> set (fmt_u u)"
  by (simp add: fmt_u_def newline_notin_dec)

lemma newline_notin_fmt_lu: "newline \<notin> set (fmt_lu u)"
  by (simp add: fmt_lu_def newline_notin_dec)

lemma newline_neq_digit: "d < 10 \<Longrightarrow> newline \<noteq> digit d"
  using digit_in_digits [of d] by (auto simp: newline_def)

lemma newline_notin_fmt_3f: "newline \<notin> set (fmt_3f x)"
  using newline_notin_dec
  by (simp add: fmt_3f_def Let_def newline_neq_digit) (simp add: newline_def)

subsection \<open>What each operation does to the world\<close>

lemma emitted_append: "stdout w' = stdout w @ s \<Longrightarrow> emitted w w' = s"
  by (simp add: emitted_def)

lemma one_line_snoc: "newline \<notin> set s \<Longrightarrow> one_line (s @ [newline])"
  by (simp add: one_line_def)

lemmas handler_defs =
  on_ompt_callback_parallel_begin_def on_ompt_callback_parallel_end_def
  on_ompt_callback_work_def on_ompt_callback_implicit_task_def
  on_ompt_callback_sync_region_def
  get_timestamp_def clock_gettime_def printf_def omp_get_thread_num_def next_timestamp_def

lemma parallel_begin_stdout:
  "stdout (on_ompt_callback_parallel_begin n w) =
     stdout w @ ''[OMPT] Thread '' @ fmt_d (thread_num w) @ '' PARALLEL BEGIN at '' @
     fmt_3f (ddiv_by (next_timestamp w) 1000) @ '' ms (requested threads: '' @ fmt_u n @ '')'' @ [newline]"
  by (simp add: handler_defs)

lemma parallel_end_stdout:
  "stdout (on_ompt_callback_parallel_end w) =
     stdout w @ ''[OMPT] Thread '' @ fmt_d (thread_num w) @ '' PARALLEL END at '' @
     fmt_3f (ddiv_by (next_timestamp w) 1000) @ '' ms'' @ [newline]"
  by (simp add: handler_defs)

lemma work_stdout:
  "stdout (on_ompt_callback_work H t e c w) =
     stdout w @ ''[OMPT] Thread '' @ fmt_d (thread_num w) @ '' WORK '' @ work_event_type H e @
     '' at '' @ fmt_3f (ddiv_by (next_timestamp w) 1000) @ '' ms (type: '' @ work_type_str H t @
     '', count: '' @ fmt_lu c @ '')'' @ [newline]"
  by (simp add: handler_defs)

lemma implicit_task_stdout:
  "stdout (on_ompt_callback_implicit_task H e n w) =
     stdout w @ ''[OMPT] Thread '' @ fmt_d (thread_num w) @ '' '' @ task_event_type H e @
     '' at '' @ fmt_3f (ddiv_by (next_timestamp w) 1000) @ '' ms (team size: '' @ fmt_u n @ '')'' @
     [newline]"
  by (simp add: handler_defs)

lemma sync_region_stdout:
  "stdout (on_ompt_callback_sync_region H k e w) =
     stdout w @ ''[OMPT] Thread '' @ fmt_d (thread_num w) @ '' '' @ sync_event_type H e @
     '' '' @ sync_type_str H k @ '' at '' @ fmt_3f (ddiv_by (next_timestamp w) 1000) @ '' ms'' @
     [newline]"
  by (simp add: handler_defs)



lemma newline_notin_event_types:
  "newline \<notin> set (work_event_type H e)"
  "newline \<notin> set (task_event_type H e)"
  "newline \<notin> set (sync_event_type H e)"
  "newline \<notin> set (work_type_str H t)"
  "newline \<notin> set (sync_type_str H k)"
  by (simp_all add: work_event_type_def task_event_type_def sync_event_type_def
      work_type_str_def sync_type_str_def newline_def)

lemma check_ompt_loaded_eq:
  "check_ompt_loaded w =
     w\<lparr>getenv_calls := Suc (getenv_calls w),
       ompt_loaded := (environ w ''OMP_TOOL_LIBRARIES'' \<noteq> None)\<rparr>"
  by (simp add: check_ompt_loaded_def getenv_def)


lemma ompt_annotate_enabled_stdout:
  "activation_enabled w \<Longrightarrow>
   stdout (ompt_annotate a w) =
     stdout w @ ''[OMPT_annotation] Thread '' @ fmt_d (thread_num w) @ '' Annotation at '' @
     fmt_3f (ddiv_by (next_timestamp w) 1000) @ '' ms: '' @ a @ [newline]"
  by (cases "first_call w")
    (simp_all add: ompt_annotate_def activation_enabled_def check_ompt_loaded_eq Let_def
      get_timestamp_def clock_gettime_def printf_def omp_get_thread_num_def next_timestamp_def)

lemma one_line_records:
  "one_line (emitted w (on_ompt_callback_parallel_begin n w))"
  "one_line (emitted w (on_ompt_callback_parallel_end w))"
  "one_line (emitted w (on_ompt_callback_work H t e c w))"
  "one_line (emitted w (on_ompt_callback_implicit_task H e n w))"
  "one_line (emitted w (on_ompt_callback_sync_region H k e w))"
proof -
  note facts = newline_notin_fmt_d [unfolded newline_def]
    newline_notin_fmt_u [unfolded newline_def] newline_notin_fmt_lu [unfolded newline_def]
    newline_notin_fmt_3f [unfolded newline_def] newline_notin_event_types [unfolded newline_def]
  have "emitted w (on_ompt_callback_parallel_begin n w) =
      (''[OMPT] Thread '' @ fmt_d (thread_num w) @ '' PARALLEL BEGIN at '' @
       fmt_3f (ddiv_by (next_timestamp w) 1000) @ '' ms (requested threads: '' @ fmt_u n @ '')'') @
      [newline]"
    by (rule emitted_append) (simp add: parallel_begin_stdout)
  moreover have "one_line ((''[OMPT] Thread '' @ fmt_d (thread_num w) @ '' PARALLEL BEGIN at '' @
       fmt_3f (ddiv_by (next_timestamp w) 1000) @ '' ms (requested threads: '' @ fmt_u n @ '')'') @
      [newline])"
    by (rule one_line_snoc) (simp add: newline_def facts)
  ultimately show "one_line (emitted w (on_ompt_callback_parallel_begin n w))" by simp
  have "emitted w (on_ompt_callback_parallel_end w) =
      (''[OMPT] Thread '' @ fmt_d (thread_num w) @ '' PARALLEL END at '' @
       fmt_3f (ddiv_by (next_timestamp w) 1000) @ '' ms'') @ [newline]"
    by (rule emitted_append) (simp add: parallel_end_stdout)
  moreover have "one_line ((''[OMPT] Thread '' @ fmt_d (thread_num w) @ '' PARALLEL END at '' @
       fmt_3f (ddiv_by (next_timestamp w) 1000) @ '' ms'') @ [newline])"
    by (rule one_line_snoc) (simp add: newline_def facts)
  ultimately show "one_line (emitted w (on_ompt_callback_parallel_end w))" by simp
  have "emitted w (on_ompt_callback_work H t e c w) =
      (''[OMPT] Thread '' @ fmt_d (thread_num w) @ '' WORK '' @ work_event_type H e @
       '' at '' @ fmt_3f (ddiv_by (next_timestamp w) 1000) @ '' ms (type: '' @ work_type_str H t @
       '', count: '' @ fmt_lu c @ '')'') @ [newline]"
    by (rule emitted_append) (simp add: work_stdout)
  moreover have "one_line ((''[OMPT] Thread '' @ fmt_d (thread_num w) @ '' WORK '' @
       work_event_type H e @ '' at '' @ fmt_3f (ddiv_by (next_timestamp w) 1000) @ '' ms (type: '' @
       work_type_str H t @ '', count: '' @ fmt_lu c @ '')'') @ [newline])"
    by (rule one_line_snoc) (simp add: newline_def facts)
  ultimately show "one_line (emitted w (on_ompt_callback_work H t e c w))" by simp
  have "emitted w (on_ompt_callback_implicit_task H e n w) =
      (''[OMPT] Thread '' @ fmt_d (thread_num w) @ '' '' @ task_event_type H e @
       '' at '' @ fmt_3f (ddiv_by (next_timestamp w) 1000) @ '' ms (team size: '' @ fmt_u n @ '')'') @
      [newline]"
    by (rule emitted_append) (simp add: implicit_task_stdout)
  moreover have "one_line ((''[OMPT] Thread '' @ fmt_d (thread_num w) @ '' '' @
       task_event_type H e @ '' at '' @ fmt_3f (ddiv_by (next_timestamp w) 1000) @
       '' ms (team size: '' @ fmt_u n @ '')'') @ [newline])"
    by (rule one_line_snoc) (simp add: newline_def facts)
  ultimately show "one_line (emitted w (on_ompt_callback_implicit_task H e n w))" by simp
  have "emitted w (on_ompt_callback_sync_region H k e w) =
      (''[OMPT] Thread '' @ fmt_d (thread_num w) @ '' '' @ sync_event_type H e @
       '' '' @ sync_type_str H k @ '' at '' @ fmt_3f (ddiv_by (next_timestamp w) 1000) @ '' ms'') @
      [newline]"
    by (rule emitted_append) (simp add: sync_region_stdout)
  moreover have "one_line ((''[OMPT] Thread '' @ fmt_d (thread_num w) @ '' '' @
       sync_event_type H e @ '' '' @ sync_type_str H k @ '' at '' @
       fmt_3f (ddiv_by (next_timestamp w) 1000) @ '' ms'') @ [newline])"
    by (rule one_line_snoc) (simp add: newline_def facts)
  ultimately show "one_line (emitted w (on_ompt_callback_sync_region H k e w))" by simp
qed

subsection \<open>The activation latch along a run\<close>









subsection \<open>The shape of the timestamp and of the annotation record\<close>

lemma is_digit_digit: "d < 10 \<Longrightarrow> is_digit (digit d)"
  by (simp only: is_digit_def digit_in_digits)

lemma is_digit_dec: "c \<in> set (dec n) \<Longrightarrow> is_digit c"
  using dec_digits [of n] by (auto simp only: is_digit_def)

lemma not_is_digit_point: "\<not> is_digit CHR ''.''" "\<not> is_digit CHR ''-''"
  by (simp_all add: is_digit_def)

lemma takeWhile_dec_point:
  "takeWhile is_digit (dec m @ CHR ''.'' # ds) = dec m"
  by (simp add: takeWhile_append2 is_digit_dec not_is_digit_point)

lemma hd_dec_not_minus: "hd (dec m) \<noteq> CHR ''-''"
proof -
  have "hd (dec m) \<in> set (dec m)" by (simp add: dec_nonempty)
  then have "is_digit (hd (dec m))" by (rule is_digit_dec)
  then show ?thesis using not_is_digit_point(2) by auto
qed

lemma decimal_with_fraction_fmt_3f: "decimal_with_fraction (fmt_3f x)"
proof -
  define n where "n = thousandths x"
  define ds where "ds = [digit (n div 100 mod 10), digit (n div 10 mod 10), digit (n mod 10)]"
  have ds: "length ds = 3" "list_all is_digit ds"
    by (simp_all add: ds_def is_digit_digit)
  have body: "decimal_with_fraction (dec (n div 1000) @ CHR ''.'' # ds)"
    using ds hd_dec_not_minus [of "n div 1000"]
    by (simp add: decimal_with_fraction_def Let_def takeWhile_dec_point dec_nonempty)
  have neg: "decimal_with_fraction (CHR ''-'' # dec (n div 1000) @ CHR ''.'' # ds)"
    using ds
    by (simp add: decimal_with_fraction_def Let_def takeWhile_dec_point dec_nonempty)
  have "fmt_3f x =
      (if significand x < 0 then ''-'' else '''') @ dec (n div 1000) @ CHR ''.'' # ds"
    by (simp add: fmt_3f_def Let_def n_def ds_def)
  with body neg show ?thesis by simp
qed

lemma one_line_snoc_iff: "one_line (s @ [newline]) = (newline \<notin> set s)"
  by (simp add: one_line_def count_list_0_iff)

lemma annotation_emitted:
  assumes "activation_enabled w"
  shows "emitted w (ompt_annotate a w) =
     (''[OMPT_annotation] Thread '' @ fmt_d (thread_num w) @ '' Annotation at '' @
      fmt_3f (ddiv_by (next_timestamp w) 1000) @ '' ms: '' @ a) @ [newline]"
  by (rule emitted_append) (simp add: ompt_annotate_enabled_stdout [OF assms])

lemma annotation_one_line:
  assumes "activation_enabled w"
  shows "one_line (emitted w (ompt_annotate a w)) = (newline \<notin> set a)"
proof -
  have "newline \<notin> set (''[OMPT_annotation] Thread '' @ fmt_d (thread_num w) @
      '' Annotation at '' @ fmt_3f (ddiv_by (next_timestamp w) 1000) @ '' ms: '')"
    by (simp add: newline_def newline_notin_fmt_d [unfolded newline_def]
        newline_notin_fmt_3f [unfolded newline_def])
  then have "(newline \<notin> set (''[OMPT_annotation] Thread '' @ fmt_d (thread_num w) @
      '' Annotation at '' @ fmt_3f (ddiv_by (next_timestamp w) 1000) @ '' ms: '' @ a)) =
      (newline \<notin> set a)"
    by auto
  then show ?thesis
    unfolding annotation_emitted [OF assms] one_line_snoc_iff .
qed

subsection \<open>Sample values\<close>

lemma fmt_small: "fmt_d 2 = ''2''" "fmt_u 4 = ''4''"
  by (simp_all add: fmt_d_def fmt_u_def dec.simps digit_def)

lemma fmt_more: "fmt_lu 17 = ''17''" "fmt_u 8 = ''8''"
  by (simp_all add: fmt_lu_def fmt_u_def dec.simps digit_def)

lemma bitlen_eval:
  "bitlen 0 = 0" "bitlen (Suc 0) = 1" "bitlen 1 = 1"
  "bitlen (numeral k) = Suc (bitlen (numeral k div 2))"
  by (subst bitlen.simps, simp)+

lemmas double_eval = double_of_int64_def dmul_by_def ddiv_by_def dadd_def round_scaled_def
  round_quotient_def rdiv_even_def thousandths_def bitlen_eval

lemma sample_reading:
  "clock world_with_tool (clock_calls world_with_tool) = \<lparr>tv_sec = 1, tv_nsec = 500000\<rparr>"
  "clock world_without_tool (clock_calls world_without_tool) = \<lparr>tv_sec = 1, tv_nsec = 500000\<rparr>"
  by (simp_all add: world_with_tool_def world_without_tool_def initial_world_def
      sample_clock_def)

lemma next_timestamp_eq:
  "next_timestamp w =
     dadd (dmul_by (double_of_int64 (tv_sec (clock w (clock_calls w)))) 1000000)
          (ddiv_by (double_of_int64 (tv_nsec (clock w (clock_calls w)))) 1000)"
  by (simp add: next_timestamp_def get_timestamp_def clock_gettime_def)

lemma sample_timestamp:
  "next_timestamp world_with_tool = Double 8594229559296000 (- 33)"
  "next_timestamp world_without_tool = Double 8594229559296000 (- 33)"
  by (simp_all add: next_timestamp_eq sample_reading double_eval Let_def)

lemma sample_value: "double_value (next_timestamp world_with_tool) = 1000500"
  by (simp add: sample_timestamp double_value_def)

lemma sample_ms:
  "fmt_3f (ddiv_by (next_timestamp world_with_tool) 1000) = ''1000.500''"
  "fmt_3f (ddiv_by (next_timestamp world_without_tool) 1000) = ''1000.500''"
  by (simp_all add: sample_timestamp fmt_3f_def double_eval Let_def dec.simps digit_def)

text \<open>
  Three readings at which the rounding of the double decides the last digit: half a
  microsecond prints as 0.001 (the double nearest to 0.0005 lies above it), and the
  quotients 12345000.6785 and 82612701326.435493 round upwards as well.
\<close>

lemma rounding_decides_last_digit:
  "clock w (clock_calls w) = \<lparr>tv_sec = 0, tv_nsec = 500\<rparr> \<Longrightarrow>
   fmt_3f (ddiv_by (next_timestamp w) 1000) = ''0.001''"
  "clock w (clock_calls w) = \<lparr>tv_sec = 12345, tv_nsec = 678500\<rparr> \<Longrightarrow>
   fmt_3f (ddiv_by (next_timestamp w) 1000) = ''12345000.679''"
  "clock w (clock_calls w) = \<lparr>tv_sec = 82612701, tv_nsec = 326435493\<rparr> \<Longrightarrow>
   fmt_3f (ddiv_by (next_timestamp w) 1000) = ''82612701326.436''"
  by (simp_all add: next_timestamp_eq fmt_3f_def double_eval Let_def dec.simps digit_def)

lemma sample_worlds:
  "thread_num world_with_tool = 2" "thread_num world_without_tool = 2"
  "stdout world_with_tool = []" "stdout world_without_tool = []"
  "clock_calls world_with_tool = 0" "clock_calls world_without_tool = 0"
  "getenv_calls world_with_tool = 0" "getenv_calls world_without_tool = 0"
  "first_call world_with_tool" "first_call world_without_tool"
  "\<not> ompt_loaded world_with_tool" "\<not> ompt_loaded world_without_tool"
  "activation_enabled world_with_tool" "\<not> activation_enabled world_without_tool"
  by (simp_all add: world_with_tool_def world_without_tool_def initial_world_def
      activation_enabled_def env_with_tool_def env_without_tool_def)


section \<open>The claims\<close>

text \<open>
  C6. \<^verbatim>\<open>check_ompt_loaded\<close> sets the activation state to enabled exactly when
  \<^verbatim>\<open>OMP_TOOL_LIBRARIES\<close> is present in the environment at the time of the check. The value
  of the variable is ignored: with any value \<open>v\<close> (the empty string included) the state is
  enabled, without the variable it is disabled. The check cannot fail and prints nothing:
  it changes the flag and reads the environment once, nothing else.
\<close>

theorem check_ompt_loaded_presence:
  "check_ompt_loaded w =
     w\<lparr>getenv_calls := Suc (getenv_calls w),
       ompt_loaded := (''OMP_TOOL_LIBRARIES'' \<in> dom (environ w))\<rparr>
   \<and> ompt_loaded (check_ompt_loaded (w\<lparr>environ := (environ w)(''OMP_TOOL_LIBRARIES'' \<mapsto> v)\<rparr>))
   \<and> \<not> ompt_loaded (check_ompt_loaded (w\<lparr>environ := (environ w)(''OMP_TOOL_LIBRARIES'' := None)\<rparr>))
   \<and> stdout (check_ompt_loaded w) = stdout w"
  by (simp add: check_ompt_loaded_eq dom_def)

theorem check_ompt_loaded_presence_witness:
  "ompt_loaded (check_ompt_loaded (initial_world env_with_tool sample_clock 0))
   \<and> \<not> ompt_loaded (check_ompt_loaded (initial_world env_without_tool sample_clock 0))
   \<and> ompt_loaded (check_ompt_loaded (initial_world [''OMP_TOOL_LIBRARIES'' \<mapsto> ''''] sample_clock 0))"
  using check_ompt_loaded_presence [of "initial_world env_with_tool sample_clock 0"]
    check_ompt_loaded_presence [of "initial_world env_without_tool sample_clock 0"]
    check_ompt_loaded_presence [of "initial_world [''OMP_TOOL_LIBRARIES'' \<mapsto> ''''] sample_clock 0"]
  by (simp add: initial_world_def env_with_tool_def env_without_tool_def)

text \<open>
  C4. If the host's lookup does not resolve \<^verbatim>\<open>ompt_set_callback\<close>, the initializer returns
  normally with status 1, leaves the host's callback table as it was, and writes the
  line "Warning: Could not register OMPT callbacks" after its greeting. Whatever the lookup
  answers, the status is 1, so the host stays attached.
\<close>

theorem initializer_without_registration:
  assumes "lookup ''ompt_set_callback'' = None"
  shows "initializer H lookup w =
           (1, w\<lparr>stdout := stdout w @ ''OMPT Tool Initialized'' @ [newline] @
                   ''Warning: Could not register OMPT callbacks'' @ [newline]\<rparr>)
         \<and> callbacks (snd (initializer H lookup w)) = callbacks w
         \<and> fst (initializer H any_lookup w) = 1"
  using assms by (simp add: initializer_def printf_def Let_def split: option.split)

theorem initializer_without_registration_witness:
  "host_lookup_unavailable ''ompt_set_callback'' = None
   \<and> fst (initializer omp_tools_5_0 host_lookup_unavailable (initial_world env_with_tool sample_clock 0)) = 1
   \<and> callbacks (snd (initializer omp_tools_5_0 host_lookup_unavailable
        (initial_world env_with_tool sample_clock 0))) = Map.empty
   \<and> stdout (snd (initializer omp_tools_5_0 host_lookup_unavailable
        (initial_world env_with_tool sample_clock 0))) =
       ''OMPT Tool Initialized'' @ [newline] @ ''Warning: Could not register OMPT callbacks'' @ [newline]
   \<and> fst (initializer omp_tools_5_0 host_lookup (initial_world env_with_tool sample_clock 0)) = 1"
  using initializer_without_registration
    [of host_lookup_unavailable omp_tools_5_0 "initial_world env_with_tool sample_clock 0" host_lookup]
  by (simp add: host_lookup_unavailable_def initial_world_def)

text \<open>
  C7. The parallel-begin handler, called with requested parallelism 4 on the worker whose
  identifier is 2, appends exactly one line to standard output. The line contains
  "PARALLEL BEGIN" and "4", and its worker field (between "Thread " and the next blank) is
  "2"; the timestamp \<open>ms\<close> in it is some decimal with three fractional digits. The handler
  does not consult the activation state, so this holds in particular when the activation
  signal is present.
\<close>

theorem parallel_begin_4_on_worker_2:
  assumes "thread_num w = 2"
  shows "(\<exists>ms. decimal_with_fraction ms
            \<and> stdout (on_ompt_callback_parallel_begin 4 w) =
                stdout w @ ''[OMPT] Thread 2 PARALLEL BEGIN at '' @ ms @
                '' ms (requested threads: 4)'' @ [newline]
            \<and> emitted w (on_ompt_callback_parallel_begin 4 w) =
                ''[OMPT] Thread 2 PARALLEL BEGIN at '' @ ms @
                '' ms (requested threads: 4)'' @ [newline])
         \<and> one_line (emitted w (on_ompt_callback_parallel_begin 4 w))
         \<and> sublist ''PARALLEL BEGIN'' (emitted w (on_ompt_callback_parallel_begin 4 w))
         \<and> sublist ''4'' (emitted w (on_ompt_callback_parallel_begin 4 w))"
proof -
  let ?ms = "fmt_3f (ddiv_by (next_timestamp w) 1000)"
  let ?line = "''[OMPT] Thread 2 PARALLEL BEGIN at '' @ ?ms @ '' ms (requested threads: 4)''"
  have out: "stdout (on_ompt_callback_parallel_begin 4 w) = stdout w @ ?line @ [newline]"
    using assms by (simp add: parallel_begin_stdout fmt_small)
  then have em: "emitted w (on_ompt_callback_parallel_begin 4 w) = ?line @ [newline]"
    by (rule emitted_append)
  have shape: "decimal_with_fraction ?ms"
    by (rule decimal_with_fraction_fmt_3f)
  have line: "\<exists>ms. decimal_with_fraction ms
            \<and> stdout (on_ompt_callback_parallel_begin 4 w) =
                stdout w @ ''[OMPT] Thread 2 PARALLEL BEGIN at '' @ ms @
                '' ms (requested threads: 4)'' @ [newline]
            \<and> emitted w (on_ompt_callback_parallel_begin 4 w) =
                ''[OMPT] Thread 2 PARALLEL BEGIN at '' @ ms @
                '' ms (requested threads: 4)'' @ [newline]"
    using shape out em by (intro exI [of _ ?ms]) simp
  have "newline \<notin> set ?line"
    using newline_notin_fmt_3f [of "ddiv_by (next_timestamp w) 1000"] by (simp add: newline_def)
  then have "one_line (?line @ [newline])"
    by (rule one_line_snoc)
  then have one: "one_line (emitted w (on_ompt_callback_parallel_begin 4 w))"
    by (simp only: em)
  have "sublist ''PARALLEL BEGIN'' (?line @ [newline])"
    unfolding sublist_def
    by (rule exI [of _ "''[OMPT] Thread 2 ''"],
        rule exI [of _ "'' at '' @ ?ms @ '' ms (requested threads: 4)'' @ [newline]"]) simp
  then have s1: "sublist ''PARALLEL BEGIN'' (emitted w (on_ompt_callback_parallel_begin 4 w))"
    by (simp only: em)
  have "sublist ''4'' (?line @ [newline])"
    unfolding sublist_def
    by (rule exI [of _ "''[OMPT] Thread 2 PARALLEL BEGIN at '' @ ?ms @ '' ms (requested threads: ''"],
        rule exI [of _ "'')'' @ [newline]"]) simp
  then have s2: "sublist ''4'' (emitted w (on_ompt_callback_parallel_begin 4 w))"
    by (simp only: em)
  from line one s1 s2 show ?thesis by (intro conjI)
qed

theorem parallel_begin_4_on_worker_2_witness:
  "thread_num world_with_tool = 2
   \<and> activation_enabled world_with_tool
   \<and> stdout (on_ompt_callback_parallel_begin 4 world_with_tool) =
       ''[OMPT] Thread 2 PARALLEL BEGIN at 1000.500 ms (requested threads: 4)'' @ [newline]
   \<and> one_line (emitted world_with_tool (on_ompt_callback_parallel_begin 4 world_with_tool))
   \<and> sublist ''PARALLEL BEGIN''
        (emitted world_with_tool (on_ompt_callback_parallel_begin 4 world_with_tool))"
proof -
  have h: "thread_num world_with_tool = 2" by (simp add: sample_worlds)
  have en: "activation_enabled world_with_tool" by (simp add: sample_worlds)
  have out: "stdout (on_ompt_callback_parallel_begin 4 world_with_tool) =
       ''[OMPT] Thread 2 PARALLEL BEGIN at 1000.500 ms (requested threads: 4)'' @ [newline]"
    by (simp add: parallel_begin_stdout sample_worlds sample_ms fmt_small)
  note t = parallel_begin_4_on_worker_2 [OF h]
  have one: "one_line (emitted world_with_tool
      (on_ompt_callback_parallel_begin 4 world_with_tool))"
    by (rule t [THEN conjunct2, THEN conjunct1])
  have sub: "sublist ''PARALLEL BEGIN''
        (emitted world_with_tool (on_ompt_callback_parallel_begin 4 world_with_tool))"
    by (rule t [THEN conjunct2, THEN conjunct2, THEN conjunct1])
  from h en out one sub show ?thesis by (intro conjI)
qed

text \<open>
  C5. The work handler and the sync-region handler map each recognized kind to its display
  name (the host's enumerators being pairwise distinct) and every other value to "unknown".
  The label appears in the emitted record, whose timestamp \<open>ms\<close> is some decimal with three
  fractional digits, and the handlers are total: an unrecognized kind yields a record like
  any other.
\<close>

theorem kinds_map_to_display_names:
  assumes "distinct [ompt_work_loop H, ompt_work_sections H, ompt_work_single_executor H,
             ompt_work_single_other H, ompt_work_workshare H, ompt_work_distribute H,
             ompt_work_taskloop H]"
    and "distinct [ompt_sync_region_barrier H, ompt_sync_region_barrier_implicit H,
             ompt_sync_region_barrier_explicit H, ompt_sync_region_barrier_implementation H,
             ompt_sync_region_taskwait H, ompt_sync_region_taskgroup H,
             ompt_sync_region_reduction H]"
  shows "map (work_type_str H)
           [ompt_work_loop H, ompt_work_sections H, ompt_work_single_executor H,
            ompt_work_single_other H, ompt_work_workshare H, ompt_work_distribute H,
            ompt_work_taskloop H] =
           [''loop'', ''sections'', ''single'', ''single_other'', ''workshare'', ''distribute'',
            ''taskloop'']
         \<and> (t \<notin> {ompt_work_loop H, ompt_work_sections H, ompt_work_single_executor H,
                 ompt_work_single_other H, ompt_work_workshare H, ompt_work_distribute H,
                 ompt_work_taskloop H} \<longrightarrow> work_type_str H t = ''unknown'')
         \<and> map (sync_type_str H)
           [ompt_sync_region_barrier H, ompt_sync_region_barrier_implicit H,
            ompt_sync_region_barrier_explicit H, ompt_sync_region_barrier_implementation H,
            ompt_sync_region_taskwait H, ompt_sync_region_taskgroup H,
            ompt_sync_region_reduction H] =
           [''barrier'', ''implicit_barrier'', ''explicit_barrier'', ''implementation_barrier'',
            ''taskwait'', ''taskgroup'', ''reduction'']
         \<and> (k \<notin> {ompt_sync_region_barrier H, ompt_sync_region_barrier_implicit H,
                 ompt_sync_region_barrier_explicit H, ompt_sync_region_barrier_implementation H,
                 ompt_sync_region_taskwait H, ompt_sync_region_taskgroup H,
                 ompt_sync_region_reduction H} \<longrightarrow> sync_type_str H k = ''unknown'')
         \<and> (\<exists>ms. decimal_with_fraction ms
               \<and> emitted w (on_ompt_callback_work H t e c w) =
                   ''[OMPT] Thread '' @ fmt_d (thread_num w) @ '' WORK '' @
                   work_event_type H e @ '' at '' @ ms @ '' ms (type: '' @
                   work_type_str H t @ '', count: '' @ fmt_lu c @ '')'' @ [newline])
         \<and> (\<exists>ms. decimal_with_fraction ms
               \<and> emitted w (on_ompt_callback_sync_region H k e w) =
                   ''[OMPT] Thread '' @ fmt_d (thread_num w) @ '' '' @ sync_event_type H e @
                   '' '' @ sync_type_str H k @ '' at '' @ ms @ '' ms'' @ [newline])"
proof -
  let ?ms = "fmt_3f (ddiv_by (next_timestamp w) 1000)"
  have shape: "decimal_with_fraction ?ms"
    by (rule decimal_with_fraction_fmt_3f)
  have work_known: "map (work_type_str H)
           [ompt_work_loop H, ompt_work_sections H, ompt_work_single_executor H,
            ompt_work_single_other H, ompt_work_workshare H, ompt_work_distribute H,
            ompt_work_taskloop H] =
           [''loop'', ''sections'', ''single'', ''single_other'', ''workshare'', ''distribute'',
            ''taskloop'']"
    using assms(1) by (simp add: work_type_str_def) metis
  have work_other: "t \<notin> {ompt_work_loop H, ompt_work_sections H, ompt_work_single_executor H,
                 ompt_work_single_other H, ompt_work_workshare H, ompt_work_distribute H,
                 ompt_work_taskloop H} \<longrightarrow> work_type_str H t = ''unknown''"
    by (simp add: work_type_str_def)
  have sync_known: "map (sync_type_str H)
           [ompt_sync_region_barrier H, ompt_sync_region_barrier_implicit H,
            ompt_sync_region_barrier_explicit H, ompt_sync_region_barrier_implementation H,
            ompt_sync_region_taskwait H, ompt_sync_region_taskgroup H,
            ompt_sync_region_reduction H] =
           [''barrier'', ''implicit_barrier'', ''explicit_barrier'', ''implementation_barrier'',
            ''taskwait'', ''taskgroup'', ''reduction'']"
    using assms(2) by (simp add: sync_type_str_def) metis
  have sync_other: "k \<notin> {ompt_sync_region_barrier H, ompt_sync_region_barrier_implicit H,
                 ompt_sync_region_barrier_explicit H, ompt_sync_region_barrier_implementation H,
                 ompt_sync_region_taskwait H, ompt_sync_region_taskgroup H,
                 ompt_sync_region_reduction H} \<longrightarrow> sync_type_str H k = ''unknown''"
    by (simp add: sync_type_str_def)
  have "emitted w (on_ompt_callback_work H t e c w) =
             ''[OMPT] Thread '' @ fmt_d (thread_num w) @ '' WORK '' @ work_event_type H e @
             '' at '' @ ?ms @ '' ms (type: '' @
             work_type_str H t @ '', count: '' @ fmt_lu c @ '')'' @ [newline]"
    by (rule emitted_append) (simp add: work_stdout)
  with shape have work_line: "\<exists>ms. decimal_with_fraction ms
               \<and> emitted w (on_ompt_callback_work H t e c w) =
                   ''[OMPT] Thread '' @ fmt_d (thread_num w) @ '' WORK '' @
                   work_event_type H e @ '' at '' @ ms @ '' ms (type: '' @
                   work_type_str H t @ '', count: '' @ fmt_lu c @ '')'' @ [newline]"
    by (intro exI [of _ ?ms] conjI)
  have "emitted w (on_ompt_callback_sync_region H k e w) =
             ''[OMPT] Thread '' @ fmt_d (thread_num w) @ '' '' @ sync_event_type H e @ '' '' @
             sync_type_str H k @ '' at '' @ ?ms @ '' ms'' @ [newline]"
    by (rule emitted_append) (simp add: sync_region_stdout)
  with shape have sync_line: "\<exists>ms. decimal_with_fraction ms
               \<and> emitted w (on_ompt_callback_sync_region H k e w) =
                   ''[OMPT] Thread '' @ fmt_d (thread_num w) @ '' '' @ sync_event_type H e @
                   '' '' @ sync_type_str H k @ '' at '' @ ms @ '' ms'' @ [newline]"
    by (intro exI [of _ ?ms] conjI)
  from work_known work_other sync_known sync_other work_line sync_line show ?thesis
    by (intro conjI)
qed

theorem kinds_map_to_display_names_witness:
  "distinct [ompt_work_loop omp_tools_5_0, ompt_work_sections omp_tools_5_0,
     ompt_work_single_executor omp_tools_5_0, ompt_work_single_other omp_tools_5_0,
     ompt_work_workshare omp_tools_5_0, ompt_work_distribute omp_tools_5_0,
     ompt_work_taskloop omp_tools_5_0]
   \<and> distinct [ompt_sync_region_barrier omp_tools_5_0,
     ompt_sync_region_barrier_implicit omp_tools_5_0,
     ompt_sync_region_barrier_explicit omp_tools_5_0,
     ompt_sync_region_barrier_implementation omp_tools_5_0,
     ompt_sync_region_taskwait omp_tools_5_0, ompt_sync_region_taskgroup omp_tools_5_0,
     ompt_sync_region_reduction omp_tools_5_0]
   \<and> work_type_str omp_tools_5_0 2 = ''sections''
   \<and> work_type_str omp_tools_5_0 9 = ''unknown''
   \<and> sync_type_str omp_tools_5_0 4 = ''implementation_barrier''
   \<and> sync_type_str omp_tools_5_0 9 = ''unknown''
   \<and> emitted world_without_tool (on_ompt_callback_work omp_tools_5_0 9 2 17 world_without_tool) =
       ''[OMPT] Thread 2 WORK END at 1000.500 ms (type: unknown, count: 17)'' @ [newline]
   \<and> emitted world_without_tool (on_ompt_callback_sync_region omp_tools_5_0 9 2 world_without_tool) =
       ''[OMPT] Thread 2 EXIT unknown at 1000.500 ms'' @ [newline]"
proof -
  have d1: "distinct [ompt_work_loop omp_tools_5_0, ompt_work_sections omp_tools_5_0,
     ompt_work_single_executor omp_tools_5_0, ompt_work_single_other omp_tools_5_0,
     ompt_work_workshare omp_tools_5_0, ompt_work_distribute omp_tools_5_0,
     ompt_work_taskloop omp_tools_5_0]"
    by (simp add: omp_tools_5_0_def)
  have d2: "distinct [ompt_sync_region_barrier omp_tools_5_0,
     ompt_sync_region_barrier_implicit omp_tools_5_0,
     ompt_sync_region_barrier_explicit omp_tools_5_0,
     ompt_sync_region_barrier_implementation omp_tools_5_0,
     ompt_sync_region_taskwait omp_tools_5_0, ompt_sync_region_taskgroup omp_tools_5_0,
     ompt_sync_region_reduction omp_tools_5_0]"
    by (simp add: omp_tools_5_0_def)
  note t = kinds_map_to_display_names [where H = omp_tools_5_0 and t = 9 and k = 9
      and w = world_without_tool and e = 2 and c = 17, OF d1 d2]
  have u1: "work_type_str omp_tools_5_0 9 = ''unknown''"
    using t by (simp add: omp_tools_5_0_def)
  have u2: "sync_type_str omp_tools_5_0 9 = ''unknown''"
    using t by (simp add: omp_tools_5_0_def)
  have k1: "work_type_str omp_tools_5_0 2 = ''sections''"
    using t by (simp add: omp_tools_5_0_def)
  have k2: "sync_type_str omp_tools_5_0 4 = ''implementation_barrier''"
    using t by (simp add: omp_tools_5_0_def)
  have e: "work_event_type omp_tools_5_0 2 = ''END''" "sync_event_type omp_tools_5_0 2 = ''EXIT''"
    by (simp_all add: work_event_type_def sync_event_type_def omp_tools_5_0_def)
  have l1: "emitted world_without_tool (on_ompt_callback_work omp_tools_5_0 9 2 17 world_without_tool) =
       ''[OMPT] Thread 2 WORK END at 1000.500 ms (type: unknown, count: 17)'' @ [newline]"
    by (rule emitted_append)
      (simp add: work_stdout u1 e sample_worlds sample_ms fmt_small fmt_more)
  have l2: "emitted world_without_tool (on_ompt_callback_sync_region omp_tools_5_0 9 2 world_without_tool) =
       ''[OMPT] Thread 2 EXIT unknown at 1000.500 ms'' @ [newline]"
    by (rule emitted_append)
      (simp add: sync_region_stdout u2 e sample_worlds sample_ms fmt_small)
  from d1 d2 k1 u1 k2 u2 l1 l2 show ?thesis by (intro conjI)
qed

text \<open>
  C10. In the work, implicit-task and sync-region handlers the direction depends on nothing
  but the comparison of the endpoint with \<^verbatim>\<open>ompt_scope_begin\<close>: equal gives "START",
  "TASK START", "ENTER"; every other value, scope-end or not, gives "END", "TASK FINISH",
  "EXIT". No endpoint value yields "unknown". In each record the timestamp \<open>ms\<close> is some
  decimal with three fractional digits.
\<close>

theorem endpoint_decides_direction:
  "(\<exists>ms. decimal_with_fraction ms
      \<and> emitted w (on_ompt_callback_work H t e c w) =
          ''[OMPT] Thread '' @ fmt_d (thread_num w) @ '' WORK '' @
          (if e = ompt_scope_begin H then ''START'' else ''END'') @
          '' at '' @ ms @ '' ms (type: '' @
          work_type_str H t @ '', count: '' @ fmt_lu c @ '')'' @ [newline])
   \<and> (\<exists>ms. decimal_with_fraction ms
      \<and> emitted w (on_ompt_callback_implicit_task H e n w) =
          ''[OMPT] Thread '' @ fmt_d (thread_num w) @ '' '' @
          (if e = ompt_scope_begin H then ''TASK START'' else ''TASK FINISH'') @
          '' at '' @ ms @ '' ms (team size: '' @ fmt_u n @ '')'' @ [newline])
   \<and> (\<exists>ms. decimal_with_fraction ms
      \<and> emitted w (on_ompt_callback_sync_region H k e w) =
          ''[OMPT] Thread '' @ fmt_d (thread_num w) @ '' '' @
          (if e = ompt_scope_begin H then ''ENTER'' else ''EXIT'') @ '' '' @
          sync_type_str H k @ '' at '' @ ms @ '' ms'' @ [newline])"
proof -
  let ?ms = "fmt_3f (ddiv_by (next_timestamp w) 1000)"
  have shape: "decimal_with_fraction ?ms"
    by (rule decimal_with_fraction_fmt_3f)
  have "emitted w (on_ompt_callback_work H t e c w) =
     ''[OMPT] Thread '' @ fmt_d (thread_num w) @ '' WORK '' @
     (if e = ompt_scope_begin H then ''START'' else ''END'') @
     '' at '' @ ?ms @ '' ms (type: '' @
     work_type_str H t @ '', count: '' @ fmt_lu c @ '')'' @ [newline]"
    by (rule emitted_append) (simp add: work_stdout work_event_type_def)
  with shape have work: "\<exists>ms. decimal_with_fraction ms
      \<and> emitted w (on_ompt_callback_work H t e c w) =
          ''[OMPT] Thread '' @ fmt_d (thread_num w) @ '' WORK '' @
          (if e = ompt_scope_begin H then ''START'' else ''END'') @
          '' at '' @ ms @ '' ms (type: '' @
          work_type_str H t @ '', count: '' @ fmt_lu c @ '')'' @ [newline]"
    by (intro exI [of _ ?ms] conjI)
  have "emitted w (on_ompt_callback_implicit_task H e n w) =
     ''[OMPT] Thread '' @ fmt_d (thread_num w) @ '' '' @
     (if e = ompt_scope_begin H then ''TASK START'' else ''TASK FINISH'') @
     '' at '' @ ?ms @ '' ms (team size: '' @ fmt_u n @ '')'' @ [newline]"
    by (rule emitted_append) (simp add: implicit_task_stdout task_event_type_def)
  with shape have task: "\<exists>ms. decimal_with_fraction ms
      \<and> emitted w (on_ompt_callback_implicit_task H e n w) =
          ''[OMPT] Thread '' @ fmt_d (thread_num w) @ '' '' @
          (if e = ompt_scope_begin H then ''TASK START'' else ''TASK FINISH'') @
          '' at '' @ ms @ '' ms (team size: '' @ fmt_u n @ '')'' @ [newline]"
    by (intro exI [of _ ?ms] conjI)
  have "emitted w (on_ompt_callback_sync_region H k e w) =
     ''[OMPT] Thread '' @ fmt_d (thread_num w) @ '' '' @
     (if e = ompt_scope_begin H then ''ENTER'' else ''EXIT'') @ '' '' @
     sync_type_str H k @ '' at '' @ ?ms @ '' ms'' @ [newline]"
    by (rule emitted_append) (simp add: sync_region_stdout sync_event_type_def)
  with shape have sync: "\<exists>ms. decimal_with_fraction ms
      \<and> emitted w (on_ompt_callback_sync_region H k e w) =
          ''[OMPT] Thread '' @ fmt_d (thread_num w) @ '' '' @
          (if e = ompt_scope_begin H then ''ENTER'' else ''EXIT'') @ '' '' @
          sync_type_str H k @ '' at '' @ ms @ '' ms'' @ [newline]"
    by (intro exI [of _ ?ms] conjI)
  from work task sync show ?thesis by (intro conjI)
qed

theorem endpoint_decides_direction_witness:
  "(\<exists>ms. decimal_with_fraction ms
      \<and> emitted world_with_tool (on_ompt_callback_sync_region omp_tools_5_0 5 3 world_with_tool) =
          ''[OMPT] Thread 2 EXIT taskwait at '' @ ms @ '' ms'' @ [newline])
   \<and> emitted world_with_tool (on_ompt_callback_work omp_tools_5_0 1 1 17 world_with_tool) =
     ''[OMPT] Thread 2 WORK START at 1000.500 ms (type: loop, count: 17)'' @ [newline]
   \<and> emitted world_with_tool (on_ompt_callback_implicit_task omp_tools_5_0 2 8 world_with_tool) =
     ''[OMPT] Thread 2 TASK FINISH at 1000.500 ms (team size: 8)'' @ [newline]
   \<and> emitted world_with_tool (on_ompt_callback_sync_region omp_tools_5_0 5 3 world_with_tool) =
     ''[OMPT] Thread 2 EXIT taskwait at 1000.500 ms'' @ [newline]"
proof -
  have s: "work_type_str omp_tools_5_0 1 = ''loop''" "sync_type_str omp_tools_5_0 5 = ''taskwait''"
    by (simp_all add: work_type_str_def sync_type_str_def omp_tools_5_0_def)
  have ev: "work_event_type omp_tools_5_0 1 = ''START''"
    "task_event_type omp_tools_5_0 2 = ''TASK FINISH''"
    "sync_event_type omp_tools_5_0 3 = ''EXIT''"
    by (simp_all add: work_event_type_def task_event_type_def sync_event_type_def
        omp_tools_5_0_def)
  have b: "ompt_scope_begin omp_tools_5_0 = 1"
    by (simp add: omp_tools_5_0_def)
  have general: "\<exists>ms. decimal_with_fraction ms
      \<and> emitted world_with_tool (on_ompt_callback_sync_region omp_tools_5_0 5 3 world_with_tool) =
          ''[OMPT] Thread 2 EXIT taskwait at '' @ ms @ '' ms'' @ [newline]"
    using endpoint_decides_direction [where w = world_with_tool and H = omp_tools_5_0
        and e = 3 and k = 5 and t = 1 and c = 17 and n = 8]
    by (simp add: s b sample_worlds fmt_small)
  have l1: "emitted world_with_tool (on_ompt_callback_work omp_tools_5_0 1 1 17 world_with_tool) =
     ''[OMPT] Thread 2 WORK START at 1000.500 ms (type: loop, count: 17)'' @ [newline]"
    by (rule emitted_append)
      (simp add: work_stdout s ev sample_worlds sample_ms fmt_small fmt_more)
  have l2: "emitted world_with_tool (on_ompt_callback_implicit_task omp_tools_5_0 2 8 world_with_tool) =
     ''[OMPT] Thread 2 TASK FINISH at 1000.500 ms (team size: 8)'' @ [newline]"
    by (rule emitted_append)
      (simp add: implicit_task_stdout ev sample_worlds sample_ms fmt_small fmt_more)
  have l3: "emitted world_with_tool (on_ompt_callback_sync_region omp_tools_5_0 5 3 world_with_tool) =
     ''[OMPT] Thread 2 EXIT taskwait at 1000.500 ms'' @ [newline]"
    by (rule emitted_append)
      (simp add: sync_region_stdout s ev sample_worlds sample_ms fmt_small)
  from general l1 l2 l3 show ?thesis by (intro conjI)
qed







text \<open>
  C8, as stated, fails for labels that contain a newline: the label is printed as it is,
  so the record of the label "a", newline, "b" occupies two lines of the output.
\<close>

theorem annotation_with_newline_spans_two_lines:
  "activation_enabled world_with_tool
   \<and> stdout (ompt_annotate (''a'' @ [newline] @ ''b'') world_with_tool) =
       ''[OMPT_annotation] Thread 2 Annotation at 1000.500 ms: a'' @ [newline] @
       ''b'' @ [newline]
   \<and> count_list (emitted world_with_tool
        (ompt_annotate (''a'' @ [newline] @ ''b'') world_with_tool)) newline = 2
   \<and> \<not> one_line (emitted world_with_tool
        (ompt_annotate (''a'' @ [newline] @ ''b'') world_with_tool))"
proof -
  have en: "activation_enabled world_with_tool" by (simp add: sample_worlds)
  show ?thesis
    by (simp add: en annotation_emitted [OF en] annotation_one_line [OF en]
        ompt_annotate_enabled_stdout [OF en] sample_worlds sample_ms fmt_small)
       (simp add: newline_def one_line_def)
qed

text \<open>
  C8, amended. While enabled, the annotation primitive performs one timestamp query and
  appends exactly one record: the header with the worker and the timestamp in milliseconds
  (a decimal with three fractional digits), then the label, byte for byte, then a newline.
  The record is exactly one line precisely when the label contains no newline. The wrapper
  \<^verbatim>\<open>ompt_mark_roi_start\<close> yields one line ending in the label "ROI_START".
\<close>

theorem annotation_record:
  assumes "activation_enabled w"
  shows "stdout (ompt_annotate a w) = stdout w @ emitted w (ompt_annotate a w)
         \<and> clock_calls (ompt_annotate a w) = Suc (clock_calls w)
         \<and> emitted w (ompt_annotate a w) =
             ''[OMPT_annotation] Thread '' @ fmt_d (thread_num w) @ '' Annotation at '' @
             fmt_3f (ddiv_by (next_timestamp w) 1000) @ '' ms: '' @ a @ [newline]
         \<and> decimal_with_fraction (fmt_3f (ddiv_by (next_timestamp w) 1000))
         \<and> sublist a (emitted w (ompt_annotate a w))
         \<and> one_line (emitted w (ompt_annotate a w)) = (newline \<notin> set a)
         \<and> emitted w (ompt_mark_roi_start w) =
             ''[OMPT_annotation] Thread '' @ fmt_d (thread_num w) @ '' Annotation at '' @
             fmt_3f (ddiv_by (next_timestamp w) 1000) @ '' ms: ROI_START'' @ [newline]
         \<and> one_line (emitted w (ompt_mark_roi_start w))"
proof -
  let ?head = "''[OMPT_annotation] Thread '' @ fmt_d (thread_num w) @ '' Annotation at '' @
      fmt_3f (ddiv_by (next_timestamp w) 1000) @ '' ms: ''"
  have em: "emitted w (ompt_annotate b w) = ?head @ b @ [newline]" for b
    using annotation_emitted [OF assms, of b] by simp
  have out: "stdout (ompt_annotate a w) = stdout w @ emitted w (ompt_annotate a w)"
    unfolding em by (simp add: ompt_annotate_enabled_stdout [OF assms])
  have clk: "clock_calls (ompt_annotate a w) = Suc (clock_calls w)"
    using assms
    by (cases "first_call w")
      (simp_all add: ompt_annotate_def activation_enabled_def check_ompt_loaded_eq Let_def
        get_timestamp_def clock_gettime_def printf_def split_def)
  have sub: "sublist a (emitted w (ompt_annotate a w))"
    unfolding em sublist_def by (rule exI [of _ ?head], rule exI [of _ "[newline]"]) simp
  have roi: "one_line (emitted w (ompt_mark_roi_start w))"
    unfolding ompt_mark_roi_start_def annotation_one_line [OF assms]
    by (simp add: newline_def)
  show ?thesis
    using out clk em [of a] sub annotation_one_line [OF assms, of a] roi
      em [of "''ROI_START''"] decimal_with_fraction_fmt_3f [of "ddiv_by (next_timestamp w) 1000"]
    by (simp add: ompt_mark_roi_start_def)
qed

theorem annotation_record_witness:
  "activation_enabled world_with_tool
   \<and> stdout (ompt_mark_roi_start world_with_tool) =
       ''[OMPT_annotation] Thread 2 Annotation at 1000.500 ms: ROI_START'' @ [newline]
   \<and> one_line (emitted world_with_tool (ompt_mark_roi_start world_with_tool))
   \<and> decimal_with_fraction ''1000.500''
   \<and> clock_calls (ompt_annotate ''ROI_START'' world_with_tool) = 1"
  using annotation_record [where w = world_with_tool and a = "''ROI_START''"]
  by (simp add: sample_worlds sample_ms fmt_small
      ompt_mark_roi_start_def one_line_def newline_def)

text \<open>
  C9, as stated, fails for annotation records. The label, the one attribute of an
  annotation, follows "ms: " and is not enclosed in parentheses, and an annotation whose
  label contains a newline is not a single line.
\<close>

theorem records_without_parenthesised_attributes:
  "stdout (ompt_mark_roi_end world_with_tool) =
     ''[OMPT_annotation] Thread 2 Annotation at 1000.500 ms: ROI_END'' @ [newline]
   \<and> CHR ''('' \<notin> set (stdout (ompt_mark_roi_end world_with_tool))
   \<and> count_list (stdout (ompt_annotate (''x'' @ [newline] @ ''y'') world_with_tool)) newline = 2"
proof -
  have en: "activation_enabled world_with_tool" by (simp add: sample_worlds)
  show ?thesis
    by (simp add: ompt_mark_roi_end_def ompt_annotate_enabled_stdout [OF en]
        sample_worlds sample_ms fmt_small)
       (simp add: newline_def)
qed

text \<open>
  C9, amended. Every lifecycle record is a single line
  "[OMPT] Thread <id> <EVENT> at <ms> ms", followed by " (<attributes>)" where the event has
  attributes (parallel begin, work, implicit task; parallel end and sync region have none).
  The sync event names the direction "ENTER"/"EXIT" followed by the region kind. An
  annotation record is "[OMPT_annotation] Thread <id> Annotation at <ms> ms: <label>", a
  single line exactly when the label has no newline. In all of them <ms> is the microsecond
  timestamp (the double sum of seconds times 1000000.0 and nanoseconds over 1000.0) divided
  by 1000.0 and printed with three fractional digits.
\<close>

theorem record_layouts:
  "emitted w (on_ompt_callback_parallel_begin n w) =
     record_line ''OMPT'' (thread_num w) ''PARALLEL BEGIN'' (next_timestamp w)
       ('' (requested threads: '' @ fmt_u n @ '')'')
   \<and> emitted w (on_ompt_callback_parallel_end w) =
     record_line ''OMPT'' (thread_num w) ''PARALLEL END'' (next_timestamp w) ''''
   \<and> emitted w (on_ompt_callback_work H t e c w) =
     record_line ''OMPT'' (thread_num w) (''WORK '' @ work_event_type H e) (next_timestamp w)
       ('' (type: '' @ work_type_str H t @ '', count: '' @ fmt_lu c @ '')'')
   \<and> emitted w (on_ompt_callback_implicit_task H e n w) =
     record_line ''OMPT'' (thread_num w) (task_event_type H e) (next_timestamp w)
       ('' (team size: '' @ fmt_u n @ '')'')
   \<and> emitted w (on_ompt_callback_sync_region H k e w) =
     record_line ''OMPT'' (thread_num w) (sync_event_type H e @ '' '' @ sync_type_str H k)
       (next_timestamp w) ''''
   \<and> (activation_enabled w \<longrightarrow>
        emitted w (ompt_annotate a w) =
          record_line ''OMPT_annotation'' (thread_num w) ''Annotation'' (next_timestamp w)
            ('': '' @ a)
        \<and> one_line (emitted w (ompt_annotate a w)) = (newline \<notin> set a))
   \<and> one_line (emitted w (on_ompt_callback_parallel_begin n w))
   \<and> one_line (emitted w (on_ompt_callback_parallel_end w))
   \<and> one_line (emitted w (on_ompt_callback_work H t e c w))
   \<and> one_line (emitted w (on_ompt_callback_implicit_task H e n w))
   \<and> one_line (emitted w (on_ompt_callback_sync_region H k e w))
   \<and> decimal_with_fraction (fmt_3f (ddiv_by (next_timestamp w) 1000))
   \<and> next_timestamp w =
       dadd (dmul_by (double_of_int64 (tv_sec (clock w (clock_calls w)))) 1000000)
            (ddiv_by (double_of_int64 (tv_nsec (clock w (clock_calls w)))) 1000)"
proof -
  have l1: "emitted w (on_ompt_callback_parallel_begin n w) =
     record_line ''OMPT'' (thread_num w) ''PARALLEL BEGIN'' (next_timestamp w)
       ('' (requested threads: '' @ fmt_u n @ '')'')"
    by (rule emitted_append) (simp add: parallel_begin_stdout record_line_def)
  have l2: "emitted w (on_ompt_callback_parallel_end w) =
     record_line ''OMPT'' (thread_num w) ''PARALLEL END'' (next_timestamp w) ''''"
    by (rule emitted_append) (simp add: parallel_end_stdout record_line_def)
  have l3: "emitted w (on_ompt_callback_work H t e c w) =
     record_line ''OMPT'' (thread_num w) (''WORK '' @ work_event_type H e) (next_timestamp w)
       ('' (type: '' @ work_type_str H t @ '', count: '' @ fmt_lu c @ '')'')"
    by (rule emitted_append) (simp add: work_stdout record_line_def)
  have l4: "emitted w (on_ompt_callback_implicit_task H e n w) =
     record_line ''OMPT'' (thread_num w) (task_event_type H e) (next_timestamp w)
       ('' (team size: '' @ fmt_u n @ '')'')"
    by (rule emitted_append) (simp add: implicit_task_stdout record_line_def)
  have l5: "emitted w (on_ompt_callback_sync_region H k e w) =
     record_line ''OMPT'' (thread_num w) (sync_event_type H e @ '' '' @ sync_type_str H k)
       (next_timestamp w) ''''"
    by (rule emitted_append) (simp add: sync_region_stdout record_line_def)
  have l6: "activation_enabled w \<longrightarrow>
        emitted w (ompt_annotate a w) =
          record_line ''OMPT_annotation'' (thread_num w) ''Annotation'' (next_timestamp w)
            ('': '' @ a)
        \<and> one_line (emitted w (ompt_annotate a w)) = (newline \<notin> set a)"
  proof
    assume en: "activation_enabled w"
    have "emitted w (ompt_annotate a w) =
          record_line ''OMPT_annotation'' (thread_num w) ''Annotation'' (next_timestamp w)
            ('': '' @ a)"
      by (simp add: annotation_emitted [OF en] record_line_def)
    with annotation_one_line [OF en, of a]
    show "emitted w (ompt_annotate a w) =
          record_line ''OMPT_annotation'' (thread_num w) ''Annotation'' (next_timestamp w)
            ('': '' @ a)
        \<and> one_line (emitted w (ompt_annotate a w)) = (newline \<notin> set a)"
      by (intro conjI)
  qed
  have ts: "next_timestamp w =
       dadd (dmul_by (double_of_int64 (tv_sec (clock w (clock_calls w)))) 1000000)
            (ddiv_by (double_of_int64 (tv_nsec (clock w (clock_calls w)))) 1000)"
    by (simp add: next_timestamp_def get_timestamp_def clock_gettime_def)
  from l1 l2 l3 l4 l5 l6 one_line_records
    decimal_with_fraction_fmt_3f [of "ddiv_by (next_timestamp w) 1000"] ts
  show ?thesis by (intro conjI)
qed

theorem record_layouts_witness:
  "activation_enabled world_with_tool
   \<and> emitted world_with_tool (ompt_annotate ''ROI_END'' world_with_tool) =
       ''[OMPT_annotation] Thread 2 Annotation at 1000.500 ms: ROI_END'' @ [newline]
   \<and> one_line (emitted world_with_tool (ompt_annotate ''ROI_END'' world_with_tool))
   \<and> emitted world_with_tool (on_ompt_callback_implicit_task omp_tools_5_0 1 8 world_with_tool) =
       ''[OMPT] Thread 2 TASK START at 1000.500 ms (team size: 8)'' @ [newline]
   \<and> emitted world_with_tool (on_ompt_callback_parallel_end world_with_tool) =
       ''[OMPT] Thread 2 PARALLEL END at 1000.500 ms'' @ [newline]
   \<and> double_value (next_timestamp world_with_tool) = 1000500"
proof -
  have en: "activation_enabled world_with_tool" by (simp add: sample_worlds)
  have e: "task_event_type omp_tools_5_0 1 = ''TASK START''"
    by (simp add: task_event_type_def omp_tools_5_0_def)
  note t = record_layouts [where w = world_with_tool and a = "''ROI_END''"
      and H = omp_tools_5_0 and e = 1 and n = 8 and t = 1 and c = 17 and k = 2]
  have "emitted world_with_tool (ompt_annotate ''ROI_END'' world_with_tool) =
      record_line ''OMPT_annotation'' (thread_num world_with_tool) ''Annotation''
        (next_timestamp world_with_tool) ('': '' @ ''ROI_END'')"
    using t en by blast
  then have l1: "emitted world_with_tool (ompt_annotate ''ROI_END'' world_with_tool) =
       ''[OMPT_annotation] Thread 2 Annotation at 1000.500 ms: ROI_END'' @ [newline]"
    by (simp add: record_line_def sample_worlds sample_ms fmt_small)
  have "one_line (emitted world_with_tool (ompt_annotate ''ROI_END'' world_with_tool)) =
      (newline \<notin> set ''ROI_END'')"
    using t en by blast
  then have l2: "one_line (emitted world_with_tool (ompt_annotate ''ROI_END'' world_with_tool))"
    by (simp add: newline_def)
  have "emitted world_with_tool (on_ompt_callback_implicit_task omp_tools_5_0 1 8 world_with_tool) =
      record_line ''OMPT'' (thread_num world_with_tool) (task_event_type omp_tools_5_0 1)
        (next_timestamp world_with_tool) ('' (team size: '' @ fmt_u 8 @ '')'')"
    using t by blast
  then have l3: "emitted world_with_tool
      (on_ompt_callback_implicit_task omp_tools_5_0 1 8 world_with_tool) =
       ''[OMPT] Thread 2 TASK START at 1000.500 ms (team size: 8)'' @ [newline]"
    by (simp add: record_line_def e sample_worlds sample_ms fmt_small fmt_more)
  have "emitted world_with_tool (on_ompt_callback_parallel_end world_with_tool) =
      record_line ''OMPT'' (thread_num world_with_tool) ''PARALLEL END''
        (next_timestamp world_with_tool) ''''"
    using t by blast
  then have l4: "emitted world_with_tool (on_ompt_callback_parallel_end world_with_tool) =
       ''[OMPT] Thread 2 PARALLEL END at 1000.500 ms'' @ [newline]"
    by (simp add: record_line_def sample_worlds sample_ms fmt_small)
  from en l1 l2 l3 l4 sample_value show ?thesis by (intro conjI)
qed

end
